theory Spec2Isabelle
  imports Complex_Main "HOL-Library.Sublist" "HOL-Library.AList"
begin

section \<open>Python values\<close>

text \<open>
  The program moves JSON documents around: the request payload, the provider's response
  body and the gallery's metadata document. A JSON value as Python's \<open>json\<close> module
  parses it is \<open>None\<close>, a bool, an int, a float, a str, a list or a dict with string keys.
  A dict is an association list in insertion order, read with \<open>map_of\<close> and written with
  \<open>AList.update\<close> (replace in place, or add at the end), as a Python dict behaves.
  The floats of the program are literals of its tables, held here as rationals.
  A str is a \<open>string\<close> of ASCII characters: \<open>lower\<close> maps the letters A to Z, which
  is what \<open>str.lower()\<close> does on ASCII text (all table entries are ASCII), and the
  first character of a str is the head of the list.
\<close>

datatype json =
    JNull
  | JBool bool
  | JInt int
  | JFloat rat
  | JStr string
  | JArr "json list"
  | JObj "(string \<times> json) list"

type_synonym pydict = "(string \<times> json) list"

datatype py_exc =
    KeyError | IndexError | TypeError | AttributeError | ValueError | BinasciiError | OSError

text \<open>Truthiness, as \<open>if x:\<close> and \<open>not x\<close> read a value.\<close>

fun truthy :: "json \<Rightarrow> bool" where
  "truthy JNull = False"
| "truthy (JBool b) = b"
| "truthy (JInt i) = (i \<noteq> 0)"
| "truthy (JFloat r) = (r \<noteq> 0)"
| "truthy (JStr s) = (s \<noteq> [])"
| "truthy (JArr xs) = (xs \<noteq> [])"
| "truthy (JObj kvs) = (kvs \<noteq> [])"

text \<open>\<open>k in x\<close> for a string \<open>k\<close>: key of a dict, element of a list, substring of a str;
  any other value is not iterable.\<close>

fun py_contains :: "string \<Rightarrow> json \<Rightarrow> py_exc + bool" where
  "py_contains k (JObj kvs) = Inr (map_of kvs k \<noteq> None)"
| "py_contains k (JArr xs) = Inr (List.member xs (JStr k))"
| "py_contains k (JStr s) = Inr (sublist k s)"
| "py_contains k JNull = Inl TypeError"
| "py_contains k (JBool b) = Inl TypeError"
| "py_contains k (JInt i) = Inl TypeError"
| "py_contains k (JFloat r) = Inl TypeError"

text \<open>\<open>x[k]\<close> for a string \<open>k\<close>: only a dict can be indexed by a string.\<close>

fun py_getitem :: "json \<Rightarrow> string \<Rightarrow> py_exc + json" where
  "py_getitem (JObj kvs) k = (case map_of kvs k of Some v \<Rightarrow> Inr v | None \<Rightarrow> Inl KeyError)"
| "py_getitem JNull k = Inl TypeError"
| "py_getitem (JBool b) k = Inl TypeError"
| "py_getitem (JInt i) k = Inl TypeError"
| "py_getitem (JFloat r) k = Inl TypeError"
| "py_getitem (JStr s) k = Inl TypeError"
| "py_getitem (JArr xs) k = Inl TypeError"

text \<open>\<open>x[0]\<close>: the first element of a list, the first character of a str; a dict parsed
  from JSON has no key \<open>0\<close>.\<close>

fun py_getitem0 :: "json \<Rightarrow> py_exc + json" where
  "py_getitem0 (JArr xs) = (case xs of [] \<Rightarrow> Inl IndexError | x # _ \<Rightarrow> Inr x)"
| "py_getitem0 (JStr s) = (case s of [] \<Rightarrow> Inl IndexError | c # _ \<Rightarrow> Inr (JStr [c]))"
| "py_getitem0 (JObj kvs) = Inl KeyError"
| "py_getitem0 JNull = Inl TypeError"
| "py_getitem0 (JBool b) = Inl TypeError"
| "py_getitem0 (JInt i) = Inl TypeError"
| "py_getitem0 (JFloat r) = Inl TypeError"

text \<open>\<open>x.get(k, d)\<close>: only a dict has the method.\<close>

fun py_get :: "json \<Rightarrow> string \<Rightarrow> json \<Rightarrow> py_exc + json" where
  "py_get (JObj kvs) k d = Inr (case map_of kvs k of Some v \<Rightarrow> v | None \<Rightarrow> d)"
| "py_get JNull k d = Inl AttributeError"
| "py_get (JBool b) k d = Inl AttributeError"
| "py_get (JInt i) k d = Inl AttributeError"
| "py_get (JFloat r) k d = Inl AttributeError"
| "py_get (JStr s) k d = Inl AttributeError"
| "py_get (JArr xs) k d = Inl AttributeError"

text \<open>\<open>d.update(e)\<close>: every item of \<open>e\<close> is stored in \<open>d\<close>, in order.\<close>

definition dict_update :: "pydict \<Rightarrow> pydict \<Rightarrow> pydict" where
  "dict_update d e = foldl (\<lambda>acc kv. AList.update (fst kv) (snd kv) acc) d e"

definition lower_char :: "char \<Rightarrow> char" where
  "lower_char c =
     (case map_of (zip ''ABCDEFGHIJKLMNOPQRSTUVWXYZ'' ''abcdefghijklmnopqrstuvwxyz'') c of
        Some d \<Rightarrow> d
      | None \<Rightarrow> c)"

definition lower :: "string \<Rightarrow> string" where
  "lower s = map lower_char s"

section \<open>The request builder of app.py\<close>

record dims =
  height :: int
  width :: int

record payload =
  instances :: "pydict list"
  parameters :: pydict

definition quality_params :: "(string \<times> pydict) list" where
  "quality_params =
     [(''standard'', [(''steps'', JInt 30)]),
      (''hd'', [(''steps'', JInt 50)])]"

definition aspect_dimensions :: "(string \<times> dims) list" where
  "aspect_dimensions =
     [(''1:1'', \<lparr>height = 1024, width = 1024\<rparr>),
      (''16:9'', \<lparr>height = 576, width = 1024\<rparr>),
      (''9:16'', \<lparr>height = 1024, width = 576\<rparr>),
      (''4:3'', \<lparr>height = 768, width = 1024\<rparr>),
      (''3:4'', \<lparr>height = 1024, width = 768\<rparr>),
      (''21:9'', \<lparr>height = 448, width = 1024\<rparr>)]"

definition guidance_scales :: "(string \<times> rat) list" where
  "guidance_scales =
     [(''photographic'', 6),
      (''digital-art'', 15 / 2),
      (''cinematic'', 7),
      (''anime'', 7),
      (''fantasy-art'', 8),
      (''neon-punk'', 17 / 2),
      (''enhance'', 11 / 2),
      (''comic-book'', 15 / 2),
      (''isometric'', 7),
      (''low-poly'', 7),
      (''origami'', 15 / 2),
      (''line-art'', 7),
      (''watercolor'', 13 / 2),
      (''pixel-art'', 8)]"

definition style_prefixes :: "(string \<times> string) list" where
  "style_prefixes =
     [(''digital-art'', ''digital art style''),
      (''cinematic'', ''cinematic lighting''),
      (''anime'', ''anime style''),
      (''fantasy-art'', ''fantasy art''),
      (''neon-punk'', ''neon cyberpunk style''),
      (''comic-book'', ''comic book style''),
      (''isometric'', ''isometric view''),
      (''low-poly'', ''low poly 3D''),
      (''origami'', ''origami style''),
      (''line-art'', ''line art''),
      (''watercolor'', ''watercolor painting''),
      (''pixel-art'', ''pixel art'')]"

text \<open>
  Lines 150 to 240 of \<open>generate_image_requests\<close> in app.py: the instance and the
  parameters are filled in the order of the source. \<open>style_preset\<close> is \<open>None\<close> when the
  form field is empty; \<open>None in guidance_scales\<close> is false.
\<close>

definition build_payload ::
  "string \<Rightarrow> string option \<Rightarrow> string option \<Rightarrow> string \<Rightarrow> string \<Rightarrow> payload" where
  "build_payload prompt negative_prompt style_preset aspect_ratio quality =
     (let instance0 = [(''prompt'', JStr prompt)];
          instance1 =
            (case negative_prompt of
               None \<Rightarrow> instance0
             | Some n \<Rightarrow>
                 if n \<noteq> [] then AList.update ''negative_prompt'' (JStr n) instance0
                 else instance0);
          parameters0 = [(''sampleCount'', JInt 1)];
          parameters1 =
            (case map_of quality_params quality of
               Some q \<Rightarrow> dict_update parameters0 q
             | None \<Rightarrow> parameters0);
          parameters2 =
            (case map_of aspect_dimensions aspect_ratio of
               Some d \<Rightarrow>
                 AList.update ''width'' (JInt (width d))
                   (AList.update ''height'' (JInt (height d)) parameters1)
             | None \<Rightarrow>
                 AList.update ''width'' (JInt 1024)
                   (AList.update ''height'' (JInt 1024) parameters1));
          styled =
            (case style_preset of
               None \<Rightarrow> None
             | Some s \<Rightarrow>
                 (case map_of guidance_scales s of
                    None \<Rightarrow> None
                  | Some g \<Rightarrow> Some (s, g)))
      in case styled of
           Some (s, g) \<Rightarrow>
             \<lparr>instances =
                [case map_of style_prefixes s of
                   Some pre \<Rightarrow>
                     if \<not> sublist (lower pre) (lower prompt)
                     then AList.update ''prompt'' (JStr (prompt @ '', '' @ pre)) instance1
                     else instance1
                 | None \<Rightarrow> instance1],
              parameters = AList.update ''guidance_scale'' (JFloat g) parameters2\<rparr>
         | None \<Rightarrow>
             \<lparr>instances = [instance1],
              parameters = AList.update ''guidance_scale'' (JFloat 7) parameters2\<rparr>)"

text \<open>What a payload holds: a parameter by name, and the prompt of its one instance.\<close>

definition param :: "payload \<Rightarrow> string \<Rightarrow> json option" where
  "param pl k = map_of (parameters pl) k"

definition sent_prompt :: "payload \<Rightarrow> json option" where
  "sent_prompt pl = (case instances pl of [i] \<Rightarrow> map_of i ''prompt'' | _ \<Rightarrow> None)"

section \<open>The world outside the program\<close>

text \<open>
  What the program calls and does not define is a field of the environment: the credential
  library (\<open>get_access_token\<close> returns the token or \<open>None\<close>), the HTTP call with
  \<open>raise_for_status\<close> and \<open>response.json()\<close>, the base64 codec on a str, \<open>uuid.uuid4\<close>,
  \<open>url_for\<close>, the clock, \<open>str()\<close> of a value and of an exception, werkzeug's
  \<open>secure_filename\<close>, Pillow's decode, composite and PNG encode, and \<open>os.path.abspath\<close>.
\<close>

datatype b64_result = Decoded string | IncorrectPadding | NonAscii

datatype http_outcome =
    Timeout
  | HTTPError string "json option" string
  | RequestException string
  | InvalidJSON
  | Response json

record env =
  access_token :: "string option"
  post :: "payload \<Rightarrow> http_outcome"
  b64decode_str :: "string \<Rightarrow> b64_result"
  uuid4 :: string
  url_for_static :: "string \<Rightarrow> string"
  now_isoformat :: string
  str_of :: "json \<Rightarrow> string"
  str_of_exc :: "py_exc \<Rightarrow> string"
  secure_filename :: "string \<Rightarrow> string"
  flatten_to_png :: "string \<Rightarrow> string option"
  abspath :: "string \<Rightarrow> string"

text \<open>
  The generated folder (\<open>static/generated\<close>, the same directory for app.py and for the
  texture scripts under \<open>static/\<close>) maps a file name to its content. A file is either a
  JSON document, held as the value \<open>json.load\<close> reads from it and \<open>json.dump\<close> writes
  to it, or other bytes, on which \<open>json.load\<close> raises \<open>JSONDecodeError\<close>. The program
  parses only \<open>metadata.json\<close>. Operations of the operating system on the files of the
  folder succeed; the empty name is the folder itself, which exists and which
  \<open>os.remove\<close> refuses. The world also records every payload handed to
  \<open>requests.post\<close>.
\<close>

datatype content = Bytes string | Document json

type_synonym folder = "string \<rightharpoonup> content"

record world =
  generated :: folder
  posted :: "payload list"



text \<open>\<open>base64.b64decode(v)\<close>: a value that is not a str is a \<open>TypeError\<close>; a str with a
  character outside ASCII is a \<open>ValueError\<close>; wrong padding is a \<open>binascii.Error\<close>.\<close>

definition b64decode :: "env \<Rightarrow> json \<Rightarrow> py_exc + string" where
  "b64decode e v =
     (case v of
        JStr s \<Rightarrow>
          (case b64decode_str e s of
             Decoded bs \<Rightarrow> Inr bs
           | IncorrectPadding \<Rightarrow> Inl BinasciiError
           | NonAscii \<Rightarrow> Inl ValueError)
      | _ \<Rightarrow> Inl TypeError)"

section \<open>The gallery metadata store of app.py\<close>

text \<open>\<open>save_image_metadata\<close>: a missing or unreadable document is an empty list;
  \<open>metadata.append\<close> exists on a list only.\<close>

definition save_image_metadata ::
  "env \<Rightarrow> folder \<Rightarrow> string \<Rightarrow> string \<Rightarrow> string \<Rightarrow> pydict \<Rightarrow> py_exc + folder" where
  "save_image_metadata e dir filename prompt operation_type extra_params =
     (let metadata =
            (case dir ''metadata.json'' of
               None \<Rightarrow> JArr []
             | Some (Bytes b) \<Rightarrow> JArr []
             | Some (Document j) \<Rightarrow> j);
          entry0 =
            [(''filename'', JStr filename),
             (''prompt'', JStr prompt),
             (''type'', JStr operation_type),
             (''created'', JStr (now_isoformat e))];
          entry = (if extra_params \<noteq> [] then dict_update entry0 extra_params else entry0)
      in case metadata of
           JArr items \<Rightarrow>
             Inr (dir(''metadata.json'' \<mapsto> Document (JArr (items @ [JObj entry]))))
         | _ \<Rightarrow> Inl AttributeError)"

section \<open>The generation pipeline of app.py\<close>

datatype result = Error string | ImageUrl string

text \<open>Line 260: \<open>'predictions' not in response_json or not response_json['predictions']\<close>.\<close>

definition no_predictions :: "json \<Rightarrow> py_exc + bool" where
  "no_predictions response_json =
     (case py_contains ''predictions'' response_json of
        Inl x \<Rightarrow> Inl x
      | Inr has \<Rightarrow>
          if \<not> has then Inr True
          else (case py_getitem response_json ''predictions'' of
                  Inl x \<Rightarrow> Inl x
                | Inr v \<Rightarrow> Inr (\<not> truthy v)))"

text \<open>Lines 263 to 272: the result when there are no predictions.\<close>

definition safety_check :: "env \<Rightarrow> json \<Rightarrow> py_exc + result" where
  "safety_check e response_json =
     (case py_contains ''safetyAttributes'' response_json of
        Inl x \<Rightarrow> Inl x
      | Inr has \<Rightarrow>
          if \<not> has then Inr (Error ''API did not return predictions. Check logs.'')
          else
            (case py_get response_json ''safetyAttributes'' (JObj []) of
               Inl x \<Rightarrow> Inl x
             | Inr safety_attrs \<Rightarrow>
                 (case py_get safety_attrs ''filtered'' (JBool False) of
                    Inl x \<Rightarrow> Inl x
                  | Inr filtered \<Rightarrow>
                      (case py_get safety_attrs ''reason'' (JStr ''Unknown'') of
                         Inl x \<Rightarrow> Inl x
                       | Inr reasons \<Rightarrow>
                           if truthy filtered
                           then Inr (Error (''Generation blocked by safety filters (Reason: ''
                                  @ str_of e reasons @ ''). Please modify your prompt.''))
                           else Inr (Error ''API did not return predictions. Check logs.'')))))"

text \<open>Line 276: \<open>response_json['predictions'][0]['bytesBase64Encoded']\<close>.\<close>

definition extract_image_b64 :: "json \<Rightarrow> py_exc + json" where
  "extract_image_b64 response_json =
     (case py_getitem response_json ''predictions'' of
        Inl x \<Rightarrow> Inl x
      | Inr predictions \<Rightarrow>
          (case py_getitem0 predictions of
             Inl x \<Rightarrow> Inl x
           | Inr prediction \<Rightarrow> py_getitem prediction ''bytesBase64Encoded''))"

text \<open>Lines 283 to 299: decode, write the file under a fresh name, record the metadata.\<close>

definition decode_and_save ::
  "env \<Rightarrow> folder \<Rightarrow> json \<Rightarrow> string \<Rightarrow> string option \<Rightarrow> string \<Rightarrow> string
     \<Rightarrow> (py_exc + result) \<times> folder" where
  "decode_and_save e dir image_b64_data prompt style_preset aspect_ratio quality =
     (let unique_filename = ''generated_'' @ uuid4 e @ ''.png''
      in case b64decode e image_b64_data of
           Inl x \<Rightarrow> (Inl x, dir)
         | Inr image_bytes \<Rightarrow>
             (let dir1 = dir(unique_filename \<mapsto> Bytes image_bytes);
                  image_url = url_for_static e (''generated/'' @ unique_filename)
              in case save_image_metadata e dir1 unique_filename prompt ''generation''
                        [(''style_preset'',
                            (case style_preset of None \<Rightarrow> JNull | Some s \<Rightarrow> JStr s)),
                         (''aspect_ratio'', JStr aspect_ratio),
                         (''quality'', JStr quality)] of
                   Inl x \<Rightarrow> (Inl x, dir1)
                 | Inr dir2 \<Rightarrow> (Inr (ImageUrl image_url), dir2)))"

definition unexpected :: "env \<Rightarrow> py_exc \<Rightarrow> result" where
  "unexpected e x =
     Error (''An unexpected server error occurred during generation: '' @ str_of_exc e x)"

text \<open>Lines 259 to 302 and the handler of line 323: what a parsed success body becomes.\<close>

definition handle_response ::
  "env \<Rightarrow> folder \<Rightarrow> json \<Rightarrow> string \<Rightarrow> string option \<Rightarrow> string \<Rightarrow> string
     \<Rightarrow> result \<times> folder" where
  "handle_response e dir response_json prompt style_preset aspect_ratio quality =
     (case no_predictions response_json of
        Inl x \<Rightarrow> (unexpected e x, dir)
      | Inr none \<Rightarrow>
          if none
          then (case safety_check e response_json of
                  Inl x \<Rightarrow> (unexpected e x, dir)
                | Inr r \<Rightarrow> (r, dir))
          else
            (case extract_image_b64 response_json of
               Inl x \<Rightarrow>
                 if List.member [KeyError, IndexError, TypeError] x
                 then (Error ''Failed to parse expected image data from API response.'', dir)
                 else (unexpected e x, dir)
             | Inr image_b64_data \<Rightarrow>
                 (case decode_and_save e dir image_b64_data prompt style_preset
                         aspect_ratio quality of
                    (Inl x, dir') \<Rightarrow>
                      if List.member [BinasciiError, TypeError, OSError] x
                      then (Error (''Failed to decode or save generated image: ''
                              @ str_of_exc e x), dir')
                      else (unexpected e x, dir')
                  | (Inr r, dir') \<Rightarrow> (r, dir'))))"

text \<open>Lines 308 to 318: the handler of an HTTP error status. An exception raised inside
  the handler leaves the function.\<close>

definition http_error_result :: "env \<Rightarrow> string \<Rightarrow> json option \<Rightarrow> string \<Rightarrow> py_exc + result" where
  "http_error_result e status_code err_json text =
     (case err_json of
        None \<Rightarrow> Inr (Error (''HTTP '' @ status_code @ '': '' @ text))
      | Some j \<Rightarrow>
          (case py_get j ''error'' (JObj []) of
             Inl x \<Rightarrow> Inl x
           | Inr err \<Rightarrow>
               (case py_get err ''message'' (JStr text) of
                  Inl x \<Rightarrow> Inl x
                | Inr m \<Rightarrow> Inr (Error (''HTTP '' @ status_code @ '': '' @ str_of e m)))))"

definition token_ok :: "env \<Rightarrow> bool" where
  "token_ok e = (case access_token e of None \<Rightarrow> False | Some t \<Rightarrow> t \<noteq> [])"

definition generate_image_requests ::
  "env \<Rightarrow> world \<Rightarrow> string \<Rightarrow> string option \<Rightarrow> string option \<Rightarrow> string \<Rightarrow> string
     \<Rightarrow> (py_exc + result) \<times> world" where
  "generate_image_requests e w prompt negative_prompt style_preset aspect_ratio quality =
     (if \<not> token_ok e
      then (Inr (Error ''Failed to get access token. Check server logs.''), w)
      else
        (let data = build_payload prompt negative_prompt style_preset aspect_ratio quality;
             w1 = w\<lparr>posted := posted w @ [data]\<rparr>
         in case post e data of
              Timeout \<Rightarrow> (Inr (Error ''Image generation request timed out.''), w1)
            | HTTPError status_code err_json text \<Rightarrow>
                (http_error_result e status_code err_json text, w1)
            | RequestException msg \<Rightarrow>
                (Inr (Error (''Network or request error during generation: '' @ msg)), w1)
            | InvalidJSON \<Rightarrow>
                (Inr (Error ''API returned OK status but response was not valid JSON.''), w1)
            | Response response_json \<Rightarrow>
                (case handle_response e (generated w1) response_json prompt style_preset
                        aspect_ratio quality of
                   (r, dir') \<Rightarrow> (Inr r, w1\<lparr>generated := dir'\<rparr>))))"

section \<open>Deleting an image (app.py)\<close>





section \<open>The texture service (static/texture_generator.py and static/code.py)\<close>

text \<open>
  Both scripts return \<open>None\<close> after printing what failed; the failure names the branch.
  An exception that no handler of the function catches leaves it.
\<close>

datatype failure =
    NoAccessToken | ApiErrorInResponse | ExtractionFailed | ProcessingFailed
  | TimedOut | HttpFailed | RequestFailed

datatype outcome = Saved string | Failed failure | Raised py_exc

text \<open>Lines 62 to 76 of both scripts: the request body; \<open>parameters\<close> is empty.\<close>

definition texture_payload :: "string \<Rightarrow> payload" where
  "texture_payload prompt = \<lparr>instances = [[(''prompt'', JStr prompt)]], parameters = []\<rparr>"

text \<open>Lines 89 to 92 of both scripts: whether the body has an \<open>error\<close> member.\<close>

definition error_in_response :: "json \<Rightarrow> py_exc + bool" where
  "error_in_response response_json =
     (case py_contains ''error'' response_json of
        Inl x \<Rightarrow> Inl x
      | Inr has \<Rightarrow>
          if \<not> has then Inr False
          else (case py_getitem response_json ''error'' of
                  Inl x \<Rightarrow> Inl x
                | Inr err \<Rightarrow>
                    (case py_get err ''message'' (JStr ''Unknown API error in JSON'') of
                       Inl x \<Rightarrow> Inl x
                     | Inr m \<Rightarrow> Inr True)))"

text \<open>Lines 96 to 112 of texture_generator.py: the shapes tried for the image data.\<close>

definition tg_extract_image_data :: "json \<Rightarrow> py_exc + json" where
  "tg_extract_image_data response_json =
     (case py_contains ''predictions'' response_json of
        Inl x \<Rightarrow> Inl x
      | Inr has \<Rightarrow>
          if \<not> has then Inl KeyError
          else
            (case py_getitem response_json ''predictions'' of
               Inl x \<Rightarrow> Inl x
             | Inr predictions \<Rightarrow>
                 if \<not> truthy predictions then Inl KeyError
                 else
                   (case py_getitem0 predictions of
                      Inl x \<Rightarrow> Inl x
                    | Inr prediction \<Rightarrow>
                        (case prediction of
                           JObj kvs \<Rightarrow>
                             (case map_of kvs ''bytesBase64Encoded'' of
                                Some v \<Rightarrow> Inr v
                              | None \<Rightarrow>
                                  (case map_of kvs ''imageBytes'' of
                                     Some v \<Rightarrow> Inr v
                                   | None \<Rightarrow>
                                       (case map_of kvs ''image'' of
                                          Some (JObj img) \<Rightarrow>
                                            Inr (case map_of img ''bytesBase64Encoded'' of
                                                   Some v \<Rightarrow> v
                                                 | None \<Rightarrow> JNull)
                                        | _ \<Rightarrow> Inr prediction)))
                         | _ \<Rightarrow> Inr prediction))))"

text \<open>\<open>generate_image_requests\<close> of texture_generator.py. The second argument is the name
  of the file in the generated folder.\<close>

definition tg_generate_image_requests ::
  "env \<Rightarrow> world \<Rightarrow> string \<Rightarrow> string \<Rightarrow> outcome \<times> world" where
  "tg_generate_image_requests e w prompt output_filename =
     (if \<not> token_ok e then (Failed NoAccessToken, w)
      else
        (let data = texture_payload prompt;
             w1 = w\<lparr>posted := posted w @ [data]\<rparr>
         in case post e data of
              Timeout \<Rightarrow> (Failed TimedOut, w1)
            | HTTPError status_code err_json text \<Rightarrow> (Failed HttpFailed, w1)
            | RequestException msg \<Rightarrow> (Failed RequestFailed, w1)
            | InvalidJSON \<Rightarrow> (Failed RequestFailed, w1)
            | Response response_json \<Rightarrow>
                (case error_in_response response_json of
                   Inl x \<Rightarrow> (Raised x, w1)
                 | Inr has_error \<Rightarrow>
                     if has_error then (Failed ApiErrorInResponse, w1)
                     else
                       (case tg_extract_image_data response_json of
                          Inl x \<Rightarrow>
                            if List.member [KeyError, IndexError, TypeError] x
                            then (Failed ExtractionFailed, w1)
                            else (Raised x, w1)
                        | Inr image_b64_data \<Rightarrow>
                            (case b64decode e image_b64_data of
                               Inl x \<Rightarrow> (Failed ProcessingFailed, w1)
                             | Inr image_bytes \<Rightarrow>
                                 (case flatten_to_png e image_bytes of
                                    None \<Rightarrow> (Failed ProcessingFailed, w1)
                                  | Some png \<Rightarrow>
                                      (Saved output_filename,
                                       w1\<lparr>generated :=
                                            (generated w1)(output_filename \<mapsto> Bytes png)\<rparr>)))))))"

text \<open>\<open>generate_image_requests\<close> of code.py: one shape, the bytes written as decoded,
  and no handler for a \<open>ValueError\<close> of the decoder.\<close>

definition code_generate_image_requests ::
  "env \<Rightarrow> world \<Rightarrow> string \<Rightarrow> string \<Rightarrow> outcome \<times> world" where
  "code_generate_image_requests e w prompt output_filename =
     (if \<not> token_ok e then (Failed NoAccessToken, w)
      else
        (let data = texture_payload prompt;
             w1 = w\<lparr>posted := posted w @ [data]\<rparr>
         in case post e data of
              Timeout \<Rightarrow> (Failed TimedOut, w1)
            | HTTPError status_code err_json text \<Rightarrow> (Failed HttpFailed, w1)
            | RequestException msg \<Rightarrow> (Failed RequestFailed, w1)
            | InvalidJSON \<Rightarrow> (Failed RequestFailed, w1)
            | Response response_json \<Rightarrow>
                (case error_in_response response_json of
                   Inl x \<Rightarrow> (Raised x, w1)
                 | Inr has_error \<Rightarrow>
                     if has_error then (Failed ApiErrorInResponse, w1)
                     else
                       (case extract_image_b64 response_json of
                          Inl x \<Rightarrow>
                            if List.member [KeyError, IndexError, TypeError] x
                            then (Failed ExtractionFailed, w1)
                            else (Raised x, w1)
                        | Inr image_b64_data \<Rightarrow>
                            (case b64decode e image_b64_data of
                               Inl x \<Rightarrow>
                                 if List.member [BinasciiError, TypeError] x
                                 then (Failed ProcessingFailed, w1)
                                 else (Raised x, w1)
                             | Inr image_bytes \<Rightarrow>
                                 (Saved output_filename,
                                  w1\<lparr>generated :=
                                       (generated w1)(output_filename \<mapsto> Bytes image_bytes)\<rparr>))))))"

datatype texture_response = FilePath string | ErrorResponse nat string

definition texture_suffix :: string where
  "texture_suffix = '', seamless tileable texture, full rectangular format, no rounded corners, no borders, no black spaces, no gaps, filling entire frame, high-resolution, flat texture''"

text \<open>Line 194: the name ends in \<open>.png\<close> and has none of the characters
  \<open>< > : " / \ | ? *\<close>.\<close>

definition invalid_output_filename :: "string \<Rightarrow> bool" where
  "invalid_output_filename output_filename =
     (\<not> suffix ''.png'' output_filename
      \<or> list_ex (\<lambda>c. List.member output_filename c)
           [CHR ''<'', CHR ''>'', CHR '':'', CHR 0x22, CHR ''/'', CHR 0x5C, CHR ''|'',
            CHR ''?'', CHR ''*''])"

definition texture_reply :: "env \<Rightarrow> outcome \<Rightarrow> py_exc + texture_response" where
  "texture_reply e saved_file =
     (case saved_file of
        Saved name \<Rightarrow> Inr (FilePath (abspath e name))
      | Failed f \<Rightarrow> Inr (ErrorResponse 500 ''Failed to generate texture.'')
      | Raised x \<Rightarrow> Inl x)"

text \<open>\<open>generate_texture\<close> of texture_generator.py; the two fields of the request are
  strings or absent.\<close>

definition tg_generate_texture ::
  "env \<Rightarrow> world \<Rightarrow> string option \<Rightarrow> string option \<Rightarrow> (py_exc + texture_response) \<times> world" where
  "tg_generate_texture e w prompt output_filename =
     (case (prompt, output_filename) of
        (Some p, Some name) \<Rightarrow>
          if p = [] \<or> name = []
          then (Inr (ErrorResponse 400 ''Missing 'prompt' or 'output_filename' in request.''), w)
          else if invalid_output_filename name
          then (Inr (ErrorResponse 400 ''Invalid output filename.''), w)
          else
            (let enhanced_prompt = p @ texture_suffix
             in case tg_generate_image_requests e w enhanced_prompt name of
                  (saved_file, w') \<Rightarrow> (texture_reply e saved_file, w'))
      | _ \<Rightarrow> (Inr (ErrorResponse 400 ''Missing 'prompt' or 'output_filename' in request.''), w))"

text \<open>\<open>generate_texture\<close> of code.py: the prompt is passed on as it came.\<close>

definition code_generate_texture ::
  "env \<Rightarrow> world \<Rightarrow> string option \<Rightarrow> string option \<Rightarrow> (py_exc + texture_response) \<times> world" where
  "code_generate_texture e w prompt output_filename =
     (case (prompt, output_filename) of
        (Some p, Some name) \<Rightarrow>
          if p = [] \<or> name = []
          then (Inr (ErrorResponse 400 ''Missing 'prompt' or 'output_filename' in request.''), w)
          else if invalid_output_filename name
          then (Inr (ErrorResponse 400 ''Invalid output filename.''), w)
          else
            (case code_generate_image_requests e w p name of
               (saved_file, w') \<Rightarrow> (texture_reply e saved_file, w'))
      | _ \<Rightarrow> (Inr (ErrorResponse 400 ''Missing 'prompt' or 'output_filename' in request.''), w))"

section \<open>An example environment\<close>

text \<open>A provider that answers every request with one prediction holding a base64 field,
  a decoder that knows this one string, and fixed values for the rest.\<close>

definition example_body :: json where
  "example_body =
     JObj [(''predictions'', JArr [JObj [(''bytesBase64Encoded'', JStr ''aGk='')]])]"

definition example_env :: env where
  "example_env =
     \<lparr>access_token = Some ''token'',
      post = (\<lambda>data. Response example_body),
      b64decode_str = (\<lambda>s. if s = ''aGk='' then Decoded ''hi'' else IncorrectPadding),
      uuid4 = ''1b4e28ba'',
      url_for_static = (\<lambda>name. ''/static/'' @ name),
      now_isoformat = ''2025-01-01T00:00:00'',
      str_of = (\<lambda>v. case v of JStr s \<Rightarrow> s | _ \<Rightarrow> ''None''),
      str_of_exc = (\<lambda>x. ''Incorrect padding''),
      secure_filename = (\<lambda>name. name),
      flatten_to_png = (\<lambda>bytes. Some (''PNG'' @ bytes)),
      abspath = (\<lambda>name. ''/srv/static/generated/'' @ name)\<rparr>"

text \<open>A body that carries a prediction and also reports filtering.\<close>

definition example_filtered_body :: json where
  "example_filtered_body =
     JObj [(''predictions'', JArr [JObj [(''bytesBase64Encoded'', JStr ''aGk='')]]),
           (''safetyAttributes'', JObj [(''filtered'', JBool True)])]"

text \<open>A body without predictions that reports filtering, with a reason.\<close>

definition example_blocked_body :: json where
  "example_blocked_body =
     JObj [(''safetyAttributes'',
            JObj [(''filtered'', JBool True), (''reason'', JStr ''violence'')])]"

text \<open>A generated folder with two images and a metadata document in which one file name
  occurs twice.\<close>

definition example_folder :: folder where
  "example_folder =
     [''oak.png'' \<mapsto> Bytes ''old'',
      ''elm.png'' \<mapsto> Bytes ''older'',
      ''metadata.json'' \<mapsto>
        Document (JArr
          [JObj [(''filename'', JStr ''oak.png''), (''prompt'', JStr ''oak'')],
           JObj [(''filename'', JStr ''elm.png''), (''prompt'', JStr ''elm'')],
           JObj [(''filename'', JStr ''oak.png''), (''prompt'', JStr ''oak again'')]])]"

definition example_world :: world where
  "example_world = \<lparr>generated = example_folder, posted = []\<rparr>"

section \<open>Properties of the request builder\<close>

lemma parameters_build_payload:
  "parameters (build_payload p n s ar q) =
     AList.update ''guidance_scale''
       (JFloat (case s of None \<Rightarrow> 7
                | Some st \<Rightarrow> (case map_of guidance_scales st of None \<Rightarrow> 7 | Some g \<Rightarrow> g)))
       (AList.update ''width''
          (JInt (case map_of aspect_dimensions ar of Some d \<Rightarrow> width d | None \<Rightarrow> 1024))
          (AList.update ''height''
             (JInt (case map_of aspect_dimensions ar of Some d \<Rightarrow> height d | None \<Rightarrow> 1024))
             (case map_of quality_params q of
                Some qp \<Rightarrow> dict_update [(''sampleCount'', JInt 1)] qp
              | None \<Rightarrow> [(''sampleCount'', JInt 1)])))"
  unfolding build_payload_def Let_def
  by (simp split: option.split)

lemma key_neq:
  "''guidance_scale'' \<noteq> ''width''" "''guidance_scale'' \<noteq> ''height''"
  "''width'' \<noteq> ''height''" "''guidance_scale'' \<noteq> ''sampleCount''"
  "''width'' \<noteq> ''sampleCount''" "''height'' \<noteq> ''sampleCount''"
  "''guidance_scale'' \<noteq> ''steps''" "''width'' \<noteq> ''steps''"
  "''height'' \<noteq> ''steps''" "''steps'' \<noteq> ''sampleCount''"
  by simp_all

lemma param_height:
  "param (build_payload p n s ar q) ''height'' =
     Some (JInt (case map_of aspect_dimensions ar of Some d \<Rightarrow> height d | None \<Rightarrow> 1024))"
  unfolding param_def parameters_build_payload update_conv'
  by (simp only: fun_upd_apply key_neq key_neq[symmetric] if_False if_True refl)

lemma param_width:
  "param (build_payload p n s ar q) ''width'' =
     Some (JInt (case map_of aspect_dimensions ar of Some d \<Rightarrow> width d | None \<Rightarrow> 1024))"
  unfolding param_def parameters_build_payload update_conv'
  by (simp only: fun_upd_apply key_neq key_neq[symmetric] if_False if_True refl)

lemma param_guidance_scale:
  "param (build_payload p n s ar q) ''guidance_scale'' =
     Some (JFloat (case s of None \<Rightarrow> 7
                   | Some st \<Rightarrow> (case map_of guidance_scales st of None \<Rightarrow> 7 | Some g \<Rightarrow> g)))"
  unfolding param_def parameters_build_payload update_conv'
  by (simp only: fun_upd_apply key_neq key_neq[symmetric] if_False if_True refl)

lemma quality_cases:
  "map_of quality_params q =
     (if q = ''standard'' then Some [(''steps'', JInt 30)]
      else if q = ''hd'' then Some [(''steps'', JInt 50)] else None)"
  by (simp add: quality_params_def)

lemma param_sampleCount:
  "param (build_payload p n s ar q) ''sampleCount'' = Some (JInt 1)"
  unfolding param_def parameters_build_payload update_conv' quality_cases
  by (simp add: dict_update_def)

lemma param_steps:
  "param (build_payload p n s ar q) ''steps'' =
     (if q = ''standard'' then Some (JInt 30)
      else if q = ''hd'' then Some (JInt 50) else None)"
  unfolding param_def parameters_build_payload update_conv' quality_cases
  by (simp add: dict_update_def)

lemma aspect_cases:
  "map_of aspect_dimensions ''1:1'' = Some \<lparr>height = 1024, width = 1024\<rparr>"
  "map_of aspect_dimensions ''16:9'' = Some \<lparr>height = 576, width = 1024\<rparr>"
  "map_of aspect_dimensions ''9:16'' = Some \<lparr>height = 1024, width = 576\<rparr>"
  "map_of aspect_dimensions ''4:3'' = Some \<lparr>height = 768, width = 1024\<rparr>"
  "map_of aspect_dimensions ''3:4'' = Some \<lparr>height = 1024, width = 768\<rparr>"
  "map_of aspect_dimensions ''21:9'' = Some \<lparr>height = 448, width = 1024\<rparr>"
  by (simp_all add: aspect_dimensions_def)

lemma aspect_unrecognized:
  "ar \<notin> {''1:1'', ''16:9'', ''9:16'', ''4:3'', ''3:4'', ''21:9''} \<Longrightarrow>
   map_of aspect_dimensions ar = None"
  by (simp add: aspect_dimensions_def)

lemma prefix_has_guidance:
  assumes "map_of style_prefixes s = Some pre"
  shows "map_of guidance_scales s \<noteq> None"
proof -
  from assms have "(s, pre) \<in> set style_prefixes" by (rule map_of_SomeD)
  then have "s \<in> fst ` set style_prefixes" by force
  then have "s \<in> {''digital-art'', ''cinematic'', ''anime'', ''fantasy-art'', ''neon-punk'',
      ''comic-book'', ''isometric'', ''low-poly'', ''origami'', ''line-art'', ''watercolor'',
      ''pixel-art''}"
    unfolding style_prefixes_def by simp
  then show ?thesis
    unfolding guidance_scales_def by (elim insertE emptyE) simp_all
qed

lemma prompt_of_instance:
  "map_of (case n of None \<Rightarrow> [(''prompt'', JStr p)]
           | Some m \<Rightarrow>
               if m \<noteq> [] then AList.update ''negative_prompt'' (JStr m) [(''prompt'', JStr p)]
               else [(''prompt'', JStr p)]) ''prompt'' = Some (JStr p)"
  by (simp split: option.split)

lemma sent_prompt_styled:
  assumes "map_of style_prefixes s = Some pre"
  shows "sent_prompt (build_payload p n (Some s) ar q) =
     Some (JStr (if sublist (lower pre) (lower p) then p else p @ '', '' @ pre))"
proof -
  from prefix_has_guidance [OF assms] obtain g where g: "map_of guidance_scales s = Some g"
    by blast
  show ?thesis
    unfolding sent_prompt_def build_payload_def Let_def
    by (simp add: g assms update_conv' prompt_of_instance)
qed

text \<open>
  C1. For every aspect ratio string the builder sets height and width: the six ratios of
  the table give 1024 by 1024, 576 by 1024, 1024 by 576, 768 by 1024, 1024 by 768 and
  448 by 1024 (height by width), and every other string gives 1024 by 1024. The builder
  is a total function of its five arguments: no value of them makes it fail.
\<close>

theorem aspect_ratio_dimensions:
  "param (build_payload p n s ''1:1'' q) ''height'' = Some (JInt 1024)
   \<and> param (build_payload p n s ''1:1'' q) ''width'' = Some (JInt 1024)
   \<and> param (build_payload p n s ''16:9'' q) ''height'' = Some (JInt 576)
   \<and> param (build_payload p n s ''16:9'' q) ''width'' = Some (JInt 1024)
   \<and> param (build_payload p n s ''9:16'' q) ''height'' = Some (JInt 1024)
   \<and> param (build_payload p n s ''9:16'' q) ''width'' = Some (JInt 576)
   \<and> param (build_payload p n s ''4:3'' q) ''height'' = Some (JInt 768)
   \<and> param (build_payload p n s ''4:3'' q) ''width'' = Some (JInt 1024)
   \<and> param (build_payload p n s ''3:4'' q) ''height'' = Some (JInt 1024)
   \<and> param (build_payload p n s ''3:4'' q) ''width'' = Some (JInt 768)
   \<and> param (build_payload p n s ''21:9'' q) ''height'' = Some (JInt 448)
   \<and> param (build_payload p n s ''21:9'' q) ''width'' = Some (JInt 1024)
   \<and> (ar \<notin> {''1:1'', ''16:9'', ''9:16'', ''4:3'', ''3:4'', ''21:9''} \<longrightarrow>
        param (build_payload p n s ar q) ''height'' = Some (JInt 1024)
        \<and> param (build_payload p n s ar q) ''width'' = Some (JInt 1024))"
  by (simp add: param_height param_width aspect_cases aspect_unrecognized)

theorem aspect_ratio_dimensions_witness:
  "''2:1'' \<notin> {''1:1'', ''16:9'', ''9:16'', ''4:3'', ''3:4'', ''21:9''}
   \<and> param (build_payload ''a red fox'' None None ''2:1'' ''standard'') ''height''
       = Some (JInt 1024)
   \<and> param (build_payload ''a red fox'' None None ''2:1'' ''standard'') ''width''
       = Some (JInt 1024)"
  using aspect_ratio_dimensions [of "''a red fox''" None None "''standard''" "''2:1''"]
  by simp



text \<open>
  C6. The prompt "a red fox" with aspect ratio 16:9, quality hd and style cinematic gives
  height 576, width 1024, steps 50, guidance scale 7.0 and the instance prompt
  "a red fox, cinematic lighting", whatever the negative prompt.
\<close>

theorem red_fox_example:
  "param (build_payload ''a red fox'' n (Some ''cinematic'') ''16:9'' ''hd'') ''height''
     = Some (JInt 576)
   \<and> param (build_payload ''a red fox'' n (Some ''cinematic'') ''16:9'' ''hd'') ''width''
       = Some (JInt 1024)
   \<and> param (build_payload ''a red fox'' n (Some ''cinematic'') ''16:9'' ''hd'') ''steps''
       = Some (JInt 50)
   \<and> param (build_payload ''a red fox'' n (Some ''cinematic'') ''16:9'' ''hd'')
         ''guidance_scale'' = Some (JFloat 7)
   \<and> sent_prompt (build_payload ''a red fox'' n (Some ''cinematic'') ''16:9'' ''hd'')
       = Some (JStr ''a red fox, cinematic lighting'')"
proof -
  have h: "map_of style_prefixes ''cinematic'' = Some ''cinematic lighting''"
    by (simp add: style_prefixes_def)
  have g: "map_of guidance_scales ''cinematic'' = Some 7"
    by (simp add: guidance_scales_def)
  have n: "\<not> sublist (lower ''cinematic lighting'') (lower ''a red fox'')"
    by code_simp
  show ?thesis
    by (simp add: param_height param_width param_steps param_guidance_scale aspect_cases g
        sent_prompt_styled [OF h] n)
qed

text \<open>
  C7, as amended. The builder of app.py sets \<open>sampleCount\<close> to 1 for every input. The
  request body of the texture scripts has an empty \<open>parameters\<close> object, so it carries no
  \<open>sampleCount\<close> at all.
\<close>

theorem sample_count_by_script:
  "param (build_payload p n s ar q) ''sampleCount'' = Some (JInt 1)
   \<and> parameters (texture_payload p) = []
   \<and> param (texture_payload p) ''sampleCount'' = None"
  using param_sampleCount [of p n s ar q]
  by (simp add: texture_payload_def param_def)

theorem texture_sample_count_counterexample:
  "param (texture_payload ''oak planks'') ''sampleCount'' \<noteq> Some (JInt 1)"
  by (simp add: texture_payload_def param_def)

section \<open>Properties of the response extractors\<close>

lemma getitem_exc: "py_getitem j k = Inl x \<Longrightarrow> x = KeyError \<or> x = TypeError"
  by (cases j) (auto split: option.splits)

lemma getitem0_exc:
  "py_getitem0 j = Inl x \<Longrightarrow> x = KeyError \<or> x = IndexError \<or> x = TypeError"
  by (cases j) (auto split: list.splits)

lemma extract_image_b64_exc:
  "extract_image_b64 j = Inl x \<Longrightarrow> List.member [KeyError, IndexError, TypeError] x"
  unfolding extract_image_b64_def
  by (auto split: sum.splits dest: getitem_exc getitem0_exc)

lemma no_predictions_list:
  "map_of b ''predictions'' = Some (JArr (pred # rest)) \<Longrightarrow> no_predictions (JObj b) = Inr False"
  by (simp add: no_predictions_def)

lemma extract_image_b64_field:
  "map_of b ''predictions'' = Some (JArr (JObj kvs # rest)) \<Longrightarrow>
   extract_image_b64 (JObj b) =
     (case map_of kvs ''bytesBase64Encoded'' of Some v \<Rightarrow> Inr v | None \<Rightarrow> Inl KeyError)"
  by (simp add: extract_image_b64_def)

lemma extract_image_b64_string:
  "map_of b ''predictions'' = Some (JArr (JStr s # rest)) \<Longrightarrow>
   extract_image_b64 (JObj b) = Inl TypeError"
  by (simp add: extract_image_b64_def)

lemma handle_response_parse_failure:
  assumes "no_predictions j = Inr False" and "extract_image_b64 j = Inl x"
  shows "handle_response e dir j p s ar q =
           (Error ''Failed to parse expected image data from API response.'', dir)"
  using assms extract_image_b64_exc [OF assms(2)]
  by (simp add: handle_response_def)

lemma handle_response_decode_failure:
  assumes "no_predictions j = Inr False" and "extract_image_b64 j = Inr (JStr d)"
    and "b64decode_str e d = IncorrectPadding"
  shows "handle_response e dir j p s ar q =
           (Error (''Failed to decode or save generated image: '' @ str_of_exc e BinasciiError),
            dir)"
  using assms
  by (simp add: handle_response_def decode_and_save_def b64decode_def)

lemma tg_extract_field:
  "map_of b ''predictions'' = Some (JArr (JObj kvs # rest)) \<Longrightarrow>
   map_of kvs ''bytesBase64Encoded'' = Some v \<Longrightarrow>
   tg_extract_image_data (JObj b) = Inr v"
  by (simp add: tg_extract_image_data_def)

lemma tg_extract_imageBytes:
  "map_of b ''predictions'' = Some (JArr (JObj kvs # rest)) \<Longrightarrow>
   map_of kvs ''bytesBase64Encoded'' = None \<Longrightarrow> map_of kvs ''imageBytes'' = Some v \<Longrightarrow>
   tg_extract_image_data (JObj b) = Inr v"
  by (simp add: tg_extract_image_data_def)

lemma tg_extract_nested:
  "map_of b ''predictions'' = Some (JArr (JObj kvs # rest)) \<Longrightarrow>
   map_of kvs ''bytesBase64Encoded'' = None \<Longrightarrow> map_of kvs ''imageBytes'' = None \<Longrightarrow>
   map_of kvs ''image'' = Some (JObj img) \<Longrightarrow> map_of img ''bytesBase64Encoded'' = Some v \<Longrightarrow>
   tg_extract_image_data (JObj b) = Inr v"
  by (simp add: tg_extract_image_data_def)

lemma tg_extract_string:
  "map_of b ''predictions'' = Some (JArr (JStr s # rest)) \<Longrightarrow>
   tg_extract_image_data (JObj b) = Inr (JStr s)"
  by (simp add: tg_extract_image_data_def)

lemma tg_extract_missing:
  "map_of b ''predictions'' = None \<or> map_of b ''predictions'' = Some (JArr []) \<Longrightarrow>
   tg_extract_image_data (JObj b) = Inl KeyError"
  by (auto simp add: tg_extract_image_data_def)

lemma error_in_response_absent:
  "map_of b ''error'' = None \<Longrightarrow> error_in_response (JObj b) = Inr False"
  by (simp add: error_in_response_def)

lemma tg_extraction_failed:
  assumes "token_ok e" and "post e (texture_payload p) = Response j"
    and "error_in_response j = Inr False" and "tg_extract_image_data j = Inl KeyError"
  shows "fst (tg_generate_image_requests e w p name) = Failed ExtractionFailed"
  using assms by (simp add: tg_generate_image_requests_def Let_def)

lemma tg_decode_failed:
  assumes "token_ok e" and "post e (texture_payload p) = Response j"
    and "error_in_response j = Inr False" and "tg_extract_image_data j = Inr (JStr d)"
    and "b64decode_str e d = IncorrectPadding"
  shows "fst (tg_generate_image_requests e w p name) = Failed ProcessingFailed"
  using assms by (simp add: tg_generate_image_requests_def Let_def b64decode_def)

text \<open>
  C2, as amended. The extractor of static/texture_generator.py finds the image data of the
  first prediction in these shapes: the field \<open>bytesBase64Encoded\<close> of the prediction, the
  field \<open>bytesBase64Encoded\<close> of its \<open>image\<close> object (when the prediction has neither
  \<open>bytesBase64Encoded\<close> nor \<open>imageBytes\<close>), and the prediction itself when it is a string.
  A body without \<open>predictions\<close>, or with an empty list, fails the extraction, and the
  function then stops in its extraction branch, which is not the branch a base64 decoding
  error stops in. The extractor of app.py reads \<open>predictions[0]['bytesBase64Encoded']\<close>
  only: any other shape gives the message "Failed to parse expected image data from API
  response.", and a base64 decoding error gives a different message, "Failed to decode
  or save generated image: ...".
\<close>

theorem extractor_shapes:
  "(map_of b ''predictions'' = Some (JArr (JObj kvs # rest))
      \<and> map_of kvs ''bytesBase64Encoded'' = Some v \<longrightarrow>
      tg_extract_image_data (JObj b) = Inr v \<and> extract_image_b64 (JObj b) = Inr v)
   \<and> (map_of b ''predictions'' = Some (JArr (JObj kvs # rest))
      \<and> map_of kvs ''bytesBase64Encoded'' = None \<and> map_of kvs ''imageBytes'' = None
      \<and> map_of kvs ''image'' = Some (JObj img) \<and> map_of img ''bytesBase64Encoded'' = Some v \<longrightarrow>
      tg_extract_image_data (JObj b) = Inr v)
   \<and> (map_of b ''predictions'' = Some (JArr (JStr s # rest)) \<longrightarrow>
      tg_extract_image_data (JObj b) = Inr (JStr s))
   \<and> (map_of b ''predictions'' = None \<or> map_of b ''predictions'' = Some (JArr []) \<longrightarrow>
      tg_extract_image_data (JObj b) = Inl KeyError)
   \<and> (token_ok e \<and> post e (texture_payload p) = Response j
      \<and> error_in_response j = Inr False \<and> tg_extract_image_data j = Inl KeyError \<longrightarrow>
      fst (tg_generate_image_requests e w p name) = Failed ExtractionFailed)
   \<and> (token_ok e \<and> post e (texture_payload p) = Response j
      \<and> error_in_response j = Inr False \<and> tg_extract_image_data j = Inr (JStr d)
      \<and> b64decode_str e d = IncorrectPadding \<longrightarrow>
      fst (tg_generate_image_requests e w p name) = Failed ProcessingFailed)
   \<and> (no_predictions j = Inr False \<and> extract_image_b64 j = Inl x \<longrightarrow>
      handle_response e dir j p st ar q =
        (Error ''Failed to parse expected image data from API response.'', dir))
   \<and> (no_predictions j = Inr False \<and> extract_image_b64 j = Inr (JStr d)
      \<and> b64decode_str e d = IncorrectPadding \<longrightarrow>
      handle_response e dir j p st ar q =
        (Error (''Failed to decode or save generated image: '' @ str_of_exc e BinasciiError),
         dir))
   \<and> ''Failed to parse expected image data from API response.''
       \<noteq> ''Failed to decode or save generated image: '' @ t"
proof (intro conjI impI; (elim conjE)?)
  assume "map_of b ''predictions'' = Some (JArr (JObj kvs # rest))"
    and "map_of kvs ''bytesBase64Encoded'' = Some v"
  then show "tg_extract_image_data (JObj b) = Inr v" by (rule tg_extract_field)
next
  assume "map_of b ''predictions'' = Some (JArr (JObj kvs # rest))"
    and "map_of kvs ''bytesBase64Encoded'' = Some v"
  then show "extract_image_b64 (JObj b) = Inr v" by (simp add: extract_image_b64_field)
next
  assume "map_of b ''predictions'' = Some (JArr (JObj kvs # rest))"
    and "map_of kvs ''bytesBase64Encoded'' = None" and "map_of kvs ''imageBytes'' = None"
    and "map_of kvs ''image'' = Some (JObj img)" and "map_of img ''bytesBase64Encoded'' = Some v"
  then show "tg_extract_image_data (JObj b) = Inr v" by (rule tg_extract_nested)
next
  assume "map_of b ''predictions'' = Some (JArr (JStr s # rest))"
  then show "tg_extract_image_data (JObj b) = Inr (JStr s)" by (rule tg_extract_string)
next
  assume "map_of b ''predictions'' = None \<or> map_of b ''predictions'' = Some (JArr [])"
  then show "tg_extract_image_data (JObj b) = Inl KeyError" by (rule tg_extract_missing)
next
  assume "token_ok e" and "post e (texture_payload p) = Response j"
    and "error_in_response j = Inr False" and "tg_extract_image_data j = Inl KeyError"
  then show "fst (tg_generate_image_requests e w p name) = Failed ExtractionFailed"
    by (rule tg_extraction_failed)
next
  assume "token_ok e" and "post e (texture_payload p) = Response j"
    and "error_in_response j = Inr False" and "tg_extract_image_data j = Inr (JStr d)"
    and "b64decode_str e d = IncorrectPadding"
  then show "fst (tg_generate_image_requests e w p name) = Failed ProcessingFailed"
    by (rule tg_decode_failed)
next
  assume "no_predictions j = Inr False" and "extract_image_b64 j = Inl x"
  then show "handle_response e dir j p st ar q =
        (Error ''Failed to parse expected image data from API response.'', dir)"
    by (rule handle_response_parse_failure)
next
  assume "no_predictions j = Inr False" and "extract_image_b64 j = Inr (JStr d)"
    and "b64decode_str e d = IncorrectPadding"
  then show "handle_response e dir j p st ar q =
        (Error (''Failed to decode or save generated image: '' @ str_of_exc e BinasciiError),
         dir)"
    by (rule handle_response_decode_failure)
next
  show "''Failed to parse expected image data from API response.''
       \<noteq> ''Failed to decode or save generated image: '' @ t"
    by simp
qed

theorem extractor_shapes_witness:
  "tg_extract_image_data example_body = Inr (JStr ''aGk='')
   \<and> extract_image_b64 example_body = Inr (JStr ''aGk='')
   \<and> tg_extract_image_data
        (JObj [(''predictions'',
                JArr [JObj [(''image'', JObj [(''bytesBase64Encoded'', JStr ''aGk='')])]])])
       = Inr (JStr ''aGk='')
   \<and> tg_extract_image_data (JObj [(''predictions'', JArr [JStr ''aGk=''])]) = Inr (JStr ''aGk='')
   \<and> tg_extract_image_data (JObj []) = Inl KeyError
   \<and> fst (tg_generate_image_requests (example_env\<lparr>post := \<lambda>data. Response (JObj [])\<rparr>)
            \<lparr>generated = Map.empty, posted = []\<rparr> ''oak planks'' ''oak.png'')
       = Failed ExtractionFailed
   \<and> fst (tg_generate_image_requests
            (example_env\<lparr>post := \<lambda>data. Response (JObj [(''predictions'', JArr [JStr ''a''])])\<rparr>)
            \<lparr>generated = Map.empty, posted = []\<rparr> ''oak planks'' ''oak.png'')
       = Failed ProcessingFailed
   \<and> handle_response example_env Map.empty (JObj [(''predictions'', JArr [JStr ''a''])])
        ''a red fox'' None ''1:1'' ''standard''
       = (Error ''Failed to parse expected image data from API response.'', Map.empty)
   \<and> handle_response example_env Map.empty
        (JObj [(''predictions'', JArr [JObj [(''bytesBase64Encoded'', JStr ''a'')]])])
        ''a red fox'' None ''1:1'' ''standard''
       = (Error ''Failed to decode or save generated image: Incorrect padding'', Map.empty)"
proof -
  let ?w = "\<lparr>generated = Map.empty, posted = []\<rparr>"
  let ?nested = "[(''predictions'',
                JArr [JObj [(''image'', JObj [(''bytesBase64Encoded'', JStr ''aGk='')])]])]"
  let ?bare = "[(''predictions'', JArr [JStr ''aGk=''])]"
  let ?bad = "JObj [(''predictions'', JArr [JStr ''a''])]"
  let ?badfield = "JObj [(''predictions'', JArr [JObj [(''bytesBase64Encoded'', JStr ''a'')]])]"
  have field: "tg_extract_image_data example_body = Inr (JStr ''aGk='')
      \<and> extract_image_b64 example_body = Inr (JStr ''aGk='')"
    using extractor_shapes
      [where b = "[(''predictions'', JArr [JObj [(''bytesBase64Encoded'', JStr ''aGk='')]])]"
        and kvs = "[(''bytesBase64Encoded'', JStr ''aGk='')]" and rest = "[]"
        and v = "JStr ''aGk=''"]
    by (simp add: example_body_def)
  have nested: "tg_extract_image_data (JObj ?nested) = Inr (JStr ''aGk='')"
    using extractor_shapes
      [where b = ?nested and kvs = "[(''image'', JObj [(''bytesBase64Encoded'', JStr ''aGk='')])]"
        and rest = "[]" and img = "[(''bytesBase64Encoded'', JStr ''aGk='')]"
        and v = "JStr ''aGk=''"]
    by simp
  have bare: "tg_extract_image_data (JObj ?bare) = Inr (JStr ''aGk='')"
    using extractor_shapes [where b = ?bare and s = "''aGk=''" and rest = "[]"]
    by simp
  have missing: "tg_extract_image_data (JObj []) = Inl KeyError"
    using extractor_shapes [where b = "[]"] by simp
  have extraction:
    "fst (tg_generate_image_requests (example_env\<lparr>post := \<lambda>data. Response (JObj [])\<rparr>)
            ?w ''oak planks'' ''oak.png'') = Failed ExtractionFailed"
    using extractor_shapes
      [where e = "example_env\<lparr>post := \<lambda>data. Response (JObj [])\<rparr>" and j = "JObj []"
        and p = "''oak planks''" and w = ?w and name = "''oak.png''"] missing
    by (simp add: token_ok_def example_env_def error_in_response_def)
  have bad_extract: "tg_extract_image_data ?bad = Inr (JStr ''a'')"
    using extractor_shapes
      [where b = "[(''predictions'', JArr [JStr ''a''])]" and s = "''a''" and rest = "[]"]
    by simp
  have decoding:
    "fst (tg_generate_image_requests (example_env\<lparr>post := \<lambda>data. Response ?bad\<rparr>)
            ?w ''oak planks'' ''oak.png'') = Failed ProcessingFailed"
    using extractor_shapes
      [where e = "example_env\<lparr>post := \<lambda>data. Response ?bad\<rparr>" and j = ?bad
        and p = "''oak planks''" and w = ?w and name = "''oak.png''" and d = "''a''"]
      bad_extract
    by (simp add: token_ok_def example_env_def error_in_response_def)
  have parse:
    "handle_response example_env Map.empty ?bad ''a red fox'' None ''1:1'' ''standard''
       = (Error ''Failed to parse expected image data from API response.'', Map.empty)"
    using extractor_shapes
      [where e = example_env and j = ?bad and x = TypeError and dir = Map.empty
        and p = "''a red fox''" and st = None and ar = "''1:1''" and q = "''standard''"]
    by (simp add: no_predictions_def extract_image_b64_def)
  have decode:
    "handle_response example_env Map.empty ?badfield ''a red fox'' None ''1:1'' ''standard''
       = (Error ''Failed to decode or save generated image: Incorrect padding'', Map.empty)"
    using extractor_shapes
      [where e = example_env and j = ?badfield and d = "''a''" and dir = Map.empty
        and p = "''a red fox''" and st = None and ar = "''1:1''" and q = "''standard''"]
    by (simp add: no_predictions_def extract_image_b64_def example_env_def)
  from field nested bare missing extraction decoding parse decode show ?thesis
    by (intro conjI) (simp_all only: simp_thms)
qed

theorem bare_string_prediction_counterexample:
  "extract_image_b64 (JObj [(''predictions'', JArr [JStr ''aGk=''])]) = Inl TypeError
   \<and> fst (handle_response example_env Map.empty (JObj [(''predictions'', JArr [JStr ''aGk=''])])
         ''a red fox'' None ''1:1'' ''standard'')
       = Error ''Failed to parse expected image data from API response.''"
  by (simp add: extract_image_b64_def handle_response_def no_predictions_def)

section \<open>The safety filter signal (app.py)\<close>

lemma no_predictions_absent:
  "map_of b ''predictions'' = None
     \<or> (\<exists>v. map_of b ''predictions'' = Some v \<and> \<not> truthy v) \<Longrightarrow>
   no_predictions (JObj b) = Inr True"
  by (auto simp add: no_predictions_def)

lemma safety_check_filtered:
  assumes "map_of b ''safetyAttributes'' = Some (JObj sa)"
    and "map_of sa ''filtered'' = Some f" and "truthy f"
  shows "safety_check e (JObj b) =
     Inr (Error (''Generation blocked by safety filters (Reason: ''
       @ str_of e (case map_of sa ''reason'' of Some r \<Rightarrow> r | None \<Rightarrow> JStr ''Unknown'')
       @ ''). Please modify your prompt.''))"
  using assms by (simp add: safety_check_def)

lemma blocked_message_contains:
  "sublist ''blocked by safety filters''
     (''Generation blocked by safety filters (Reason: '' @ r @ ''). Please modify your prompt.'')"
proof -
  have "''Generation blocked by safety filters (Reason: '' @ r @ ''). Please modify your prompt.''
      = ''Generation '' @ ''blocked by safety filters''
          @ ('' (Reason: '' @ r @ ''). Please modify your prompt.'')"
    by simp
  then show ?thesis by (simp only: sublist_appendI)
qed

text \<open>
  C3, as amended. When the provider answers with a JSON object that has no predictions
  (the member is absent or falsy) and whose \<open>safetyAttributes\<close> object has a truthy
  \<open>filtered\<close> member, the pipeline returns the error "Generation blocked by safety filters
  (Reason: ...). Please modify your prompt.", which contains "blocked by safety
  filters", and writes no file.
\<close>

theorem safety_filter_without_predictions:
  assumes "token_ok e"
    and "post e (build_payload p n s ar q) = Response (JObj b)"
    and "map_of b ''predictions'' = None
           \<or> (\<exists>v. map_of b ''predictions'' = Some v \<and> \<not> truthy v)"
    and "map_of b ''safetyAttributes'' = Some (JObj sa)"
    and "map_of sa ''filtered'' = Some f" and "truthy f"
  shows "generate_image_requests e w p n s ar q =
           (Inr (Error (''Generation blocked by safety filters (Reason: ''
              @ str_of e (case map_of sa ''reason'' of Some r \<Rightarrow> r | None \<Rightarrow> JStr ''Unknown'')
              @ ''). Please modify your prompt.'')),
            w\<lparr>posted := posted w @ [build_payload p n s ar q]\<rparr>)
         \<and> sublist ''blocked by safety filters''
             (''Generation blocked by safety filters (Reason: ''
              @ str_of e (case map_of sa ''reason'' of Some r \<Rightarrow> r | None \<Rightarrow> JStr ''Unknown'')
              @ ''). Please modify your prompt.'')"
proof
  have "handle_response e (generated w) (JObj b) p s ar q =
      (Error (''Generation blocked by safety filters (Reason: ''
              @ str_of e (case map_of sa ''reason'' of Some r \<Rightarrow> r | None \<Rightarrow> JStr ''Unknown'')
              @ ''). Please modify your prompt.''), generated w)"
    unfolding handle_response_def
    by (simp add: no_predictions_absent [OF assms(3)]
        safety_check_filtered [OF assms(4) assms(5) assms(6)])
  then show "generate_image_requests e w p n s ar q =
           (Inr (Error (''Generation blocked by safety filters (Reason: ''
              @ str_of e (case map_of sa ''reason'' of Some r \<Rightarrow> r | None \<Rightarrow> JStr ''Unknown'')
              @ ''). Please modify your prompt.'')),
            w\<lparr>posted := posted w @ [build_payload p n s ar q]\<rparr>)"
    using assms(1) assms(2)
    by (simp add: generate_image_requests_def Let_def)
next
  show "sublist ''blocked by safety filters''
             (''Generation blocked by safety filters (Reason: ''
              @ str_of e (case map_of sa ''reason'' of Some r \<Rightarrow> r | None \<Rightarrow> JStr ''Unknown'')
              @ ''). Please modify your prompt.'')"
    by (rule blocked_message_contains)
qed

theorem safety_filter_without_predictions_witness:
  "fst (generate_image_requests (example_env\<lparr>post := \<lambda>data. Response example_blocked_body\<rparr>)
          example_world ''a red fox'' None None ''1:1'' ''standard'')
     = Inr (Error
         ''Generation blocked by safety filters (Reason: violence). Please modify your prompt.'')
   \<and> generated (snd (generate_image_requests
          (example_env\<lparr>post := \<lambda>data. Response example_blocked_body\<rparr>)
          example_world ''a red fox'' None None ''1:1'' ''standard''))
       = generated example_world"
proof -
  let ?e = "example_env\<lparr>post := \<lambda>data. Response example_blocked_body\<rparr>"
  have tok: "token_ok ?e" by (simp add: token_ok_def example_env_def)
  have post: "post ?e (build_payload ''a red fox'' None None ''1:1'' ''standard'')
      = Response (JObj [(''safetyAttributes'',
            JObj [(''filtered'', JBool True), (''reason'', JStr ''violence'')])])"
    by (simp add: example_blocked_body_def)
  from safety_filter_without_predictions
    [OF tok post, where sa = "[(''filtered'', JBool True), (''reason'', JStr ''violence'')]"
      and f = "JBool True" and w = example_world]
  show ?thesis by (simp add: example_env_def)
qed

theorem filtered_with_predictions_counterexample:
  "fst (generate_image_requests (example_env\<lparr>post := \<lambda>data. Response example_filtered_body\<rparr>)
          \<lparr>generated = Map.empty, posted = []\<rparr> ''a red fox'' None None ''1:1'' ''standard'')
     = Inr (ImageUrl ''/static/generated/generated_1b4e28ba.png'')"
  by (simp add: generate_image_requests_def Let_def token_ok_def example_env_def
      example_filtered_body_def handle_response_def no_predictions_def extract_image_b64_def
      decode_and_save_def b64decode_def save_image_metadata_def)

section \<open>Deleting an image\<close>








section \<open>What a persist step writes\<close>

















section \<open>The prompt the texture service sends\<close>

lemma tg_posted:
  "posted (snd (tg_generate_image_requests e w p name)) =
     (if token_ok e then posted w @ [texture_payload p] else posted w)"
  by (simp add: tg_generate_image_requests_def Let_def
      split: http_outcome.split sum.split option.split)

lemma code_posted:
  "posted (snd (code_generate_image_requests e w p name)) =
     (if token_ok e then posted w @ [texture_payload p] else posted w)"
  by (simp add: code_generate_image_requests_def Let_def
      split: http_outcome.split sum.split option.split)

lemma sent_prompt_texture: "sent_prompt (texture_payload p) = Some (JStr p)"
  by (simp add: sent_prompt_def texture_payload_def)

text \<open>
  C10, as amended. For a request with a non-empty prompt and a valid output file name,
  and with an access token at hand, the endpoint of static/texture_generator.py sends one
  request whose prompt is the caller's prompt followed by the fixed suffix ", seamless
  tileable texture, ..., flat texture"; the caller's prompt is a prefix of it. The
  endpoint of static/code.py sends the caller's prompt as it came.
\<close>

theorem texture_prompt_sent:
  assumes "token_ok e" and "p \<noteq> []" and "name \<noteq> []" and "\<not> invalid_output_filename name"
  shows "map sent_prompt (posted (snd (tg_generate_texture e w (Some p) (Some name))))
           = map sent_prompt (posted w) @ [Some (JStr (p @ texture_suffix))]
         \<and> prefix p (p @ texture_suffix)
         \<and> texture_suffix = '', seamless tileable texture, full rectangular format, no rounded corners, no borders, no black spaces, no gaps, filling entire frame, high-resolution, flat texture''
         \<and> map sent_prompt (posted (snd (code_generate_texture e w (Some p) (Some name))))
             = map sent_prompt (posted w) @ [Some (JStr p)]"
proof (intro conjI)
  show "map sent_prompt (posted (snd (tg_generate_texture e w (Some p) (Some name))))
           = map sent_prompt (posted w) @ [Some (JStr (p @ texture_suffix))]"
    using assms
    by (simp add: tg_generate_texture_def Let_def case_prod_beta tg_posted sent_prompt_texture)
next
  show "prefix p (p @ texture_suffix)" by simp
next
  show "texture_suffix = '', seamless tileable texture, full rectangular format, no rounded corners, no borders, no black spaces, no gaps, filling entire frame, high-resolution, flat texture''"
    by (rule texture_suffix_def)
next
  show "map sent_prompt (posted (snd (code_generate_texture e w (Some p) (Some name))))
             = map sent_prompt (posted w) @ [Some (JStr p)]"
    using assms
    by (simp add: code_generate_texture_def case_prod_beta code_posted sent_prompt_texture)
qed

theorem texture_prompt_sent_witness:
  "map sent_prompt
     (posted (snd (tg_generate_texture example_env example_world (Some ''oak planks'')
        (Some ''oak.png''))))
     = [Some (JStr ''oak planks, seamless tileable texture, full rectangular format, no rounded corners, no borders, no black spaces, no gaps, filling entire frame, high-resolution, flat texture'')]
   \<and> prefix ''oak planks'' ''oak planks, seamless tileable texture, full rectangular format, no rounded corners, no borders, no black spaces, no gaps, filling entire frame, high-resolution, flat texture''"
proof -
  have t: "token_ok example_env" by (simp add: token_ok_def example_env_def)
  have v: "\<not> invalid_output_filename ''oak.png''" by code_simp
  have w: "posted example_world = []" by (simp add: example_world_def)
  from texture_prompt_sent [OF t _ _ v, of "''oak planks''" example_world] w
  show ?thesis by simp
qed

theorem verbatim_prompt_counterexample:
  "map sent_prompt
     (posted (snd (code_generate_texture example_env example_world (Some ''oak planks'')
        (Some ''oak.png''))))
     = [Some (JStr ''oak planks'')]"
proof -
  have t: "token_ok example_env" by (simp add: token_ok_def example_env_def)
  have v: "\<not> invalid_output_filename ''oak.png''" by code_simp
  have w: "posted example_world = []" by (simp add: example_world_def)
  show ?thesis
    by (simp add: code_generate_texture_def case_prod_beta code_posted sent_prompt_texture
        t v w)
qed

end
